theory Spec2Isabelle
  imports Complex_Main "HOL-Library.Char_ord" "HOL-Library.List_Lexorder"
begin

section \<open>The host the program runs on\<close>

text \<open>
  \<^verbatim>\<open>mclub.py\<close> is a Python 2 program (PySide, \<^verbatim>\<open>socket.send\<close> of a \<^verbatim>\<open>str\<close>). Its
  class \<^verbatim>\<open>FileOperations\<close> and the worker \<^verbatim>\<open>CopyWorker.run\<close> are embedded below.
  Everything they ask of the operating system and of the Python runtime is a field of
  the record \<open>host\<close>, over a type \<open>'w\<close> of file-system states: the embedding fixes
  no behaviour of the file system, so a theorem holds for every one.

  Paths are strings; \<^verbatim>\<open>sorted\<close> on them is the lexicographic order on characters.
\<close>

type_synonym path = string

text \<open>What \<^verbatim>\<open>os.stat\<close> returns, as far as the program reads it. The library functions
  \<^verbatim>\<open>os.path.exists\<close>, \<^verbatim>\<open>os.path.isfile\<close> and \<^verbatim>\<open>os.path.getmtime\<close> are all
  \<^verbatim>\<open>os.stat\<close> underneath: \<^verbatim>\<open>exists\<close> is "stat did not raise", \<^verbatim>\<open>isfile\<close> is
  "stat did not raise and the mode is a regular file", \<^verbatim>\<open>getmtime\<close> is \<^verbatim>\<open>st_mtime\<close>.\<close>

record stat_result =
  st_size :: int
  st_mtime :: rat
  st_isreg :: bool

datatype platform = Windows | Posix

datatype py_error =
  IndexError | UnboundLocalError | TypeError | ZeroDivisionError | OSError

text \<open>What the program does to the outside, in order: the two calls that change the
  file system, and the three lines it prints.\<close>

datatype effect =
  Makedirs path
  | Copy2 path path
  | PrintUnableToCreate path
  | PrintCopyError path path
  | PrintCopyCancelled

record 'w host =
  os_version :: platform
  os_stat :: "'w \<Rightarrow> path \<Rightarrow> stat_result option"
  os_statvfs :: "'w \<Rightarrow> path \<Rightarrow> (int \<times> int) option"
  GetDiskFreeSpaceExW :: "'w \<Rightarrow> path \<Rightarrow> int option"
  os_walk :: "'w \<Rightarrow> path \<Rightarrow> (path \<times> path list \<times> path list) list"
  os_makedirs :: "'w \<Rightarrow> path \<Rightarrow> bool \<times> 'w"
  shutil_copy2 :: "'w \<Rightarrow> path \<Rightarrow> path \<Rightarrow> bool \<times> 'w"
  os_path_abspath :: "path \<Rightarrow> path"
  float_percent :: "int \<Rightarrow> int \<Rightarrow> int"

text \<open>
  \<^item> \<open>os_stat\<close>, \<open>os_statvfs\<close> (\<^verbatim>\<open>f_bavail\<close>, \<^verbatim>\<open>f_frsize\<close>): \<open>None\<close> when the call raises.
  \<^item> \<open>GetDiskFreeSpaceExW\<close>: the free bytes it stores, \<open>None\<close> when the call fails and
    stores nothing.
  \<^item> \<open>os_walk\<close>: the triples \<^verbatim>\<open>(r, d, f)\<close> the generator yields.
  \<^item> \<open>os_makedirs\<close>, \<open>shutil_copy2\<close>: whether the call returned (\<open>True\<close>) or raised,
    and the file system after it.
  \<^item> \<open>os_path_abspath\<close>: \<^verbatim>\<open>os.path.abspath\<close>, which depends on the working directory.
  \<^item> \<open>float_percent a b\<close>: \<^verbatim>\<open>int((float(a) / float(b)) * 100)\<close> for \<open>b \<noteq> 0\<close>, a
    computation in double precision that is not modelled further.
\<close>

definition path_exists :: "'w host \<Rightarrow> 'w \<Rightarrow> path \<Rightarrow> bool" where
  "path_exists h w p = (os_stat h w p \<noteq> None)"

definition path_isfile :: "'w host \<Rightarrow> 'w \<Rightarrow> path \<Rightarrow> bool" where
  "path_isfile h w p = (case os_stat h w p of None \<Rightarrow> False | Some st \<Rightarrow> st_isreg st)"

section \<open>Path algebra (posixpath)\<close>

text \<open>\<^verbatim>\<open>os.path.split\<close> and \<^verbatim>\<open>os.path.join\<close> are taken in their POSIX versions, where
  \<^verbatim>\<open>os.path.splitdrive\<close> never finds a drive; the Windows versions are not modelled.\<close>

definition is_sep :: "char \<Rightarrow> bool" where
  "is_sep c = (c = CHR ''/'')"

definition rstrip_sep :: "path \<Rightarrow> path" where
  "rstrip_sep p = rev (dropWhile is_sep (rev p))"

text \<open>\<^verbatim>\<open>os.path.split\<close>: the tail is what follows the last slash; the head is the rest,
  without its trailing slashes unless it consists of slashes only.\<close>

definition os_path_split :: "path \<Rightarrow> path \<times> path" where
  "os_path_split p =
     (let tail = rev (takeWhile (\<lambda>c. \<not> is_sep c) (rev p));
          head = rev (dropWhile (\<lambda>c. \<not> is_sep c) (rev p))
      in (if head \<noteq> [] \<and> \<not> list_all is_sep head then rstrip_sep head else head, tail))"

text \<open>\<^verbatim>\<open>os.path.join(a, *p)\<close>: a component that starts with a slash discards what is
  before it.\<close>

fun os_path_join :: "path \<Rightarrow> path list \<Rightarrow> path" where
  "os_path_join a [] = a"
| "os_path_join a (b # p) =
     os_path_join
       (if b \<noteq> [] \<and> is_sep (hd b) then b
        else if a = [] \<or> is_sep (last a) then a @ b
        else a @ ''/'' @ b) p"

section \<open>FileOperations\<close>

record fileops =
  filecount :: int
  filelist :: "path list"
  filesize :: int

definition FileOperations :: fileops where
  "FileOperations = \<lparr>filecount = 0, filelist = [], filesize = 0\<rparr>"

text \<open>\<^verbatim>\<open>split_path\<close>: the drive is dropped (\<^verbatim>\<open>splitdrive\<close> finds none on POSIX), then the
  first character, then the loop \<^verbatim>\<open>while 1\<close> splits components off the end. The loop ends
  because the head of a split with a non-empty tail is shorter than the path.\<close>

function split_path_loop :: "path \<Rightarrow> path list \<Rightarrow> path list" where
  "split_path_loop p folders =
     (case os_path_split p of
        (p', folder) \<Rightarrow>
          if folder \<noteq> [] then
            (if length p' = 0 then rev (folders @ [folder])
             else split_path_loop p' (folders @ [folder]))
          else
            (if p' \<noteq> [] then rev (folders @ [p']) else rev folders))"
  by pat_completeness auto
termination
proof (relation "measure (\<lambda>(p, folders). length p)")
  show "wf (measure (\<lambda>(p, folders). length p))"
    by simp
next
  fix p :: path and folders :: "path list" and p' folder
  assume split: "(p', folder) = os_path_split p" and tail: "folder \<noteq> []"
  let ?head = "rev (dropWhile (\<lambda>c. \<not> is_sep c) (rev p))"
  let ?tail = "rev (takeWhile (\<lambda>c. \<not> is_sep c) (rev p))"
  have "folder = ?tail"
    using split by (simp add: os_path_split_def Let_def)
  with tail have "0 < length ?tail"
    by simp
  moreover have "length ?head + length ?tail = length p"
    by (metis add.commute length_append length_rev takeWhile_dropWhile_id)
  moreover have "length p' \<le> length ?head"
    using split
    by (auto simp: os_path_split_def Let_def rstrip_sep_def length_dropWhile_le
        split: if_splits)
  ultimately have "length p' < length p"
    by linarith
  then show "((p', folders @ [folder]), (p, folders)) \<in> measure (\<lambda>(p, folders). length p)"
    by simp
qed

definition split_path :: "path \<Rightarrow> path list" where
  "split_path p = split_path_loop (drop 1 p) []"

text \<open>\<^verbatim>\<open>get_dest_filepath\<close>. \<^verbatim>\<open>fp[-1]\<close> raises IndexError on the empty list.\<close>

definition get_dest_filepath :: "'w host \<Rightarrow> path \<Rightarrow> path \<Rightarrow> int \<Rightarrow> py_error + path" where
  "get_dest_filepath h filepath destpath flattencount =
     (let fp = split_path filepath in
      if flattencount > 0 then
        (if int (length fp) > flattencount
         then Inr (os_path_abspath h (os_path_join destpath (drop (nat flattencount) fp)))
         else (case fp of
                 [] \<Rightarrow> Inl IndexError
               | _ \<Rightarrow> Inr (os_path_abspath h (os_path_join destpath [last fp]))))
      else Inr (os_path_abspath h (os_path_join destpath fp)))"

text \<open>\<^verbatim>\<open>get_free_space\<close>. On Windows a failed \<^verbatim>\<open>GetDiskFreeSpaceExW\<close> leaves the
  \<^verbatim>\<open>c_ulonglong(0)\<close> as it was created; elsewhere a failed \<^verbatim>\<open>os.statvfs\<close> raises, and
  nothing catches it.\<close>

definition get_free_space :: "'w host \<Rightarrow> 'w \<Rightarrow> path \<Rightarrow> py_error + int" where
  "get_free_space h w folder =
     (if os_version h = Windows then
        (case GetDiskFreeSpaceExW h w folder of
           None \<Rightarrow> Inr 0
         | Some free_bytes \<Rightarrow> Inr free_bytes)
      else
        (case os_statvfs h w folder of
           None \<Rightarrow> Inl OSError
         | Some (f_bavail, f_frsize) \<Rightarrow> Inr (f_bavail * f_frsize)))"

text \<open>\<^verbatim>\<open>get_file_size\<close> returns the object and the value returned: \<open>None\<close> is Python's
  \<^verbatim>\<open>None\<close>, which is what the function returns when it falls off its end, as it does
  in the \<^verbatim>\<open>except\<close> branch whatever \<^verbatim>\<open>ret\<close> is.\<close>

definition get_file_size ::
  "'w host \<Rightarrow> 'w \<Rightarrow> fileops \<Rightarrow> path \<Rightarrow> bool \<Rightarrow> fileops \<times> int option" where
  "get_file_size h w self filepath ret =
     (case os_stat h w filepath of
        Some st \<Rightarrow>
          if \<not> ret then (self\<lparr>filesize := filesize self + st_size st\<rparr>, None)
          else (self, Some (st_size st))
      | None \<Rightarrow> (self\<lparr>filesize := filesize self + 0\<rparr>, None))"

definition get_file_age :: "'w host \<Rightarrow> 'w \<Rightarrow> path \<Rightarrow> rat" where
  "get_file_age h w filepath =
     (case os_stat h w filepath of Some st \<Rightarrow> st_mtime st | None \<Rightarrow> 0)"

text \<open>The three statements that \<^verbatim>\<open>get_file_list_for_dir\<close> runs for each file it finds
  (lines 56 to 58, and again 61 to 63).\<close>

definition record_file :: "'w host \<Rightarrow> 'w \<Rightarrow> path \<Rightarrow> fileops \<Rightarrow> fileops" where
  "record_file h w file_path self =
     fst (get_file_size h w
            (self\<lparr>filelist := filelist self @ [file_path], filecount := filecount self + 1\<rparr>)
            file_path False)"

definition get_file_list_for_dir :: "'w host \<Rightarrow> 'w \<Rightarrow> fileops \<Rightarrow> path \<Rightarrow> fileops" where
  "get_file_list_for_dir h w self filepath =
     (if \<not> path_isfile h w filepath then
        fold (\<lambda>(r, d, f) s.
               fold (\<lambda>file. record_file h w (os_path_join (os_path_abspath h r) [file])) f s)
             (os_walk h w filepath) self
      else record_file h w filepath self)"

text \<open>Python 2 orders \<^verbatim>\<open>None\<close> below every number: \<^verbatim>\<open>None > n\<close> is false, \<^verbatim>\<open>n > None\<close>
  is true.\<close>

fun py2_gt :: "int option \<Rightarrow> int option \<Rightarrow> bool" where
  "py2_gt (Some a) (Some b) = (a > b)"
| "py2_gt (Some a) None = True"
| "py2_gt None b = False"

text \<open>What a call of \<^verbatim>\<open>copy_file_to_dest\<close> leaves: the file system, what it did, and
  the object, or the exception that left the function.\<close>

record 'w step =
  world_after :: 'w
  effects_of :: "effect list"
  outcome :: "py_error + fileops"

text \<open>Lines 160 to 173, entered when \<^verbatim>\<open>copy_file_flag\<close> is true. The two \<^verbatim>\<open>try\<close>
  statements follow each other: \<^verbatim>\<open>shutil.copy2\<close> is called whether or not
  \<^verbatim>\<open>os.makedirs\<close> raised. \<^verbatim>\<open>self.filesize += source_filesize\<close> stands in the
  \<^verbatim>\<open>else\<close> of the second \<^verbatim>\<open>try\<close>, where no handler covers it.\<close>

definition copy_flagged ::
  "'w host \<Rightarrow> 'w \<Rightarrow> fileops \<Rightarrow> int option \<Rightarrow> path \<Rightarrow> path \<Rightarrow> 'w step" where
  "copy_flagged h w self source_filesize filepath destination =
     (let destdir = fst (os_path_split destination);
          made =
            (if \<not> path_exists h w destdir then
               (case os_makedirs h w destdir of
                  (True, w1) \<Rightarrow> (w1, [Makedirs destdir])
                | (False, w1) \<Rightarrow> (w1, [Makedirs destdir, PrintUnableToCreate destdir]))
             else (w, []))
      in case shutil_copy2 h (fst made) filepath destination of
           (False, w2) \<Rightarrow>
             \<lparr>world_after = w2,
              effects_of = snd made @ [Copy2 filepath destination,
                                       PrintCopyError filepath destination],
              outcome = Inr self\<rparr>
         | (True, w2) \<Rightarrow>
             \<lparr>world_after = w2,
              effects_of = snd made @ [Copy2 filepath destination],
              outcome =
                (case source_filesize of
                   None \<Rightarrow> Inl TypeError
                 | Some n \<Rightarrow>
                     Inr (self\<lparr>filesize := filesize self + n,
                               filecount := filecount self + 1\<rparr>))\<rparr>)"

text \<open>Lines 145 to 159: the local \<^verbatim>\<open>copy_file_flag\<close>. \<open>None\<close> is "never assigned":
  under \<^verbatim>\<open>'larger'\<close> and \<^verbatim>\<open>'newer'\<close> the inner \<^verbatim>\<open>if\<close> has no \<^verbatim>\<open>else\<close>.
  \<open>overwrite\<close> is the string of the message, or \<open>None\<close> for JSON's null.\<close>

definition copy_file_flag ::
  "string option \<Rightarrow> bool \<Rightarrow> int option \<Rightarrow> rat \<Rightarrow> int option \<Rightarrow> rat \<Rightarrow> bool option" where
  "copy_file_flag overwrite dest_exists source_filesize source_fileage
       dest_filesize dest_fileage =
     (if dest_exists then
        (if overwrite = Some ''larger'' then
           (if py2_gt source_filesize dest_filesize then Some True else None)
         else if overwrite = Some ''newer'' then
           (if source_fileage > dest_fileage then Some True else None)
         else if overwrite = Some ''either'' then Some True
         else Some False)
      else Some True)"

definition copy_file_to_dest ::
  "'w host \<Rightarrow> 'w \<Rightarrow> fileops \<Rightarrow> path \<Rightarrow> path \<Rightarrow> string option \<Rightarrow> 'w step" where
  "copy_file_to_dest h w self filepath destination overwrite =
     (let sized = get_file_size h w self filepath True;
          source_filesize = snd sized;
          source_fileage = get_file_age h w filepath;
          dest_exists = path_exists h w destination;
          dest_sized =
            (if dest_exists then get_file_size h w (fst sized) destination True
             else (fst sized, None));
          dest_fileage = (if dest_exists then get_file_age h w destination else 0)
      in case copy_file_flag overwrite dest_exists source_filesize source_fileage
                (snd dest_sized) dest_fileage of
           None \<Rightarrow>
             \<lparr>world_after = w, effects_of = [], outcome = Inl UnboundLocalError\<rparr>
         | Some False \<Rightarrow>
             \<lparr>world_after = w, effects_of = [], outcome = Inr (fst dest_sized)\<rparr>
         | Some True \<Rightarrow>
             copy_flagged h w (fst dest_sized) source_filesize filepath destination)"

section \<open>CopyWorker\<close>

text \<open>The attributes \<^verbatim>\<open>run\<close> sets from the message it receives.\<close>

record copy_worker =
  pathlist :: "path list"
  destdir :: path
  flattencount :: int
  overwrite :: "string option"

text \<open>The signals \<^verbatim>\<open>run\<close> emits. \<open>CopyProgress\<close> carries the percentage,
  \<^verbatim>\<open>filecopy.filecount\<close> and \<^verbatim>\<open>filecount\<close>; \<open>SpaceProblem\<close> carries \<^verbatim>\<open>filesize\<close>
  and \<^verbatim>\<open>available_space\<close>; \<open>CopyComplete\<close> carries \<^verbatim>\<open>filecount\<close> and \<^verbatim>\<open>filesize\<close>
  (in bytes: its conversion to gigabytes and the two run times are left out).\<close>

datatype event =
  CopyProgress int int int
  | SpaceProblem int int
  | CopyComplete int int

text \<open>How \<^verbatim>\<open>run\<close> ends: after \<^verbatim>\<open>copyComplete\<close>, at the \<^verbatim>\<open>return\<close> after
  \<^verbatim>\<open>spaceProblem\<close>, at the \<^verbatim>\<open>return\<close> after \<^verbatim>\<open>print ('Copy cancelled')\<close>, or by an
  exception that nothing catches.\<close>

datatype ending = Completed | InsufficientSpace | Cancelled | Raised py_error

record 'w run_result =
  events :: "event list"
  effects :: "effect list"
  world :: 'w
  copied :: fileops
  ending :: ending

text \<open>Lines 194 to 202: the locals \<^verbatim>\<open>filecount\<close>, \<^verbatim>\<open>filesize\<close> and \<^verbatim>\<open>filelist\<close> of
  \<^verbatim>\<open>run\<close>, kept in a record of the same three fields. Each entry of the path list gets
  a fresh \<^verbatim>\<open>FileOperations\<close>, whose count, list and size are added on.\<close>

definition scan_sources :: "'w host \<Rightarrow> 'w \<Rightarrow> path list \<Rightarrow> fileops" where
  "scan_sources h w paths =
     fold (\<lambda>filepath acc.
            let fileop = get_file_list_for_dir h w FileOperations filepath
            in \<lparr>filecount = filecount acc + filecount fileop,
                filelist = filelist acc @ filelist fileop,
                filesize = filesize acc + filesize fileop\<rparr>)
          paths \<lparr>filecount = 0, filelist = [], filesize = 0\<rparr>"

text \<open>Lines 207 to 219: the loop over \<^verbatim>\<open>sorted(set(filelist))\<close>. \<open>must_run k\<close> is what
  the \<open>k\<close>-th read of \<^verbatim>\<open>self.must_run\<close> finds (another thread sets the attribute): each
  file reads it once before it starts and once before its signal. \<open>scanned\<close> holds the
  locals \<^verbatim>\<open>filecount\<close> and \<^verbatim>\<open>filesize\<close>. The float division raises when \<^verbatim>\<open>filesize\<close>
  is 0. An ending \<open>Completed\<close> here says that the loop ran to its end.\<close>

fun copy_loop ::
  "'w host \<Rightarrow> (nat \<Rightarrow> bool) \<Rightarrow> copy_worker \<Rightarrow> fileops \<Rightarrow> path list \<Rightarrow> nat \<Rightarrow> 'w \<Rightarrow> fileops
     \<Rightarrow> 'w run_result" where
  "copy_loop h must_run self scanned [] k w filecopy =
     \<lparr>events = [], effects = [], world = w, copied = filecopy, ending = Completed\<rparr>"
| "copy_loop h must_run self scanned (file # files) k w filecopy =
     (if must_run k then
        (case get_dest_filepath h file (destdir self) (flattencount self) of
           Inl e \<Rightarrow>
             \<lparr>events = [], effects = [], world = w, copied = filecopy, ending = Raised e\<rparr>
         | Inr destfilepath \<Rightarrow>
             (let st = copy_file_to_dest h w filecopy file destfilepath (overwrite self) in
              case outcome st of
                Inl e \<Rightarrow>
                  \<lparr>events = [], effects = effects_of st, world = world_after st,
                   copied = filecopy, ending = Raised e\<rparr>
              | Inr filecopy1 \<Rightarrow>
                  if filesize scanned = 0 then
                    \<lparr>events = [], effects = effects_of st, world = world_after st,
                     copied = filecopy1, ending = Raised ZeroDivisionError\<rparr>
                  else
                    (let progress_percent =
                           float_percent h (filesize filecopy1) (filesize scanned);
                         rest = copy_loop h must_run self scanned files (k + 2)
                                  (world_after st) filecopy1
                     in rest\<lparr>events :=
                               (if must_run (k + 1)
                                then [CopyProgress progress_percent (filecount filecopy1)
                                        (filecount scanned)]
                                else []) @ events rest,
                             effects := effects_of st @ effects rest\<rparr>)))
      else
        \<lparr>events = [], effects = [PrintCopyCancelled], world = w, copied = filecopy,
         ending = Cancelled\<rparr>)"

text \<open>\<^verbatim>\<open>CopyWorker.run\<close>, from the free-space query on.\<close>

definition run :: "'w host \<Rightarrow> 'w \<Rightarrow> (nat \<Rightarrow> bool) \<Rightarrow> copy_worker \<Rightarrow> 'w run_result" where
  "run h w must_run self =
     (case get_free_space h w (destdir self) of
        Inl e \<Rightarrow>
          \<lparr>events = [], effects = [], world = w, copied = FileOperations, ending = Raised e\<rparr>
      | Inr available_space \<Rightarrow>
          (let scanned = scan_sources h w (pathlist self) in
           if filesize scanned < available_space then
             (let r = copy_loop h must_run self scanned
                        (sorted_list_of_set (set (filelist scanned))) 0 w FileOperations
              in r\<lparr>events :=
                     CopyProgress 0 0 (filecount scanned) # events r @
                       (if ending r = Completed
                        then [CopyComplete (filecount scanned) (filesize scanned)]
                        else [])\<rparr>)
           else
             \<lparr>events = [SpaceProblem (filesize scanned) available_space], effects = [],
              world = w, copied = FileOperations, ending = InsufficientSpace\<rparr>))"

section \<open>A small file system to run the program on\<close>

text \<open>A disk is a list of paths with what \<^verbatim>\<open>os.stat\<close> finds there, the first entry of a
  path counting. \<open>disk_host\<close> runs the program on it: a directory is walked one level
  deep, \<^verbatim>\<open>os.makedirs\<close> succeeds, \<^verbatim>\<open>shutil.copy2\<close> succeeds when the source is there
  and gives the destination the size and time of the source, every mounted path has
  \<open>free_blocks\<close> blocks of one byte free, and the percentage is computed exactly.\<close>

type_synonym disk = "(path \<times> stat_result) list"

definition regular :: "int \<Rightarrow> rat \<Rightarrow> stat_result" where
  "regular n t = \<lparr>st_size = n, st_mtime = t, st_isreg = True\<rparr>"

definition directory :: stat_result where
  "directory = \<lparr>st_size = 0, st_mtime = 0, st_isreg = False\<rparr>"

definition files_in :: "disk \<Rightarrow> path \<Rightarrow> path list" where
  "files_in w r =
     map (\<lambda>(p, st). snd (os_path_split p))
       (filter (\<lambda>(p, st). st_isreg st \<and> fst (os_path_split p) = r) w)"

definition disk_host :: "int \<Rightarrow> disk host" where
  "disk_host free_blocks =
     \<lparr>os_version = Posix,
      os_stat = map_of,
      os_statvfs = (\<lambda>w p. if map_of w p = None then None else Some (free_blocks, 1)),
      GetDiskFreeSpaceExW = (\<lambda>w p. if map_of w p = None then None else Some free_blocks),
      os_walk = (\<lambda>w p. if map_of w p = None then [] else [(p, [], files_in w p)]),
      os_makedirs = (\<lambda>w p. (True, (p, directory) # w)),
      shutil_copy2 =
        (\<lambda>w src dst. case map_of w src of
                        None \<Rightarrow> (False, w)
                      | Some st \<Rightarrow> (True, (dst, st) # w)),
      os_path_abspath = (\<lambda>p. p),
      float_percent = (\<lambda>a b. (a * 100) div b)\<rparr>"

text \<open>The disk of the examples: a directory \<^verbatim>\<open>/a\<close> with one file of 100 bytes, and an
  empty destination \<^verbatim>\<open>/out\<close>.\<close>

definition disk0 :: disk where
  "disk0 = [(''/a'', directory), (''/a/x.txt'', regular 100 5), (''/out'', directory)]"

definition job :: "path list \<Rightarrow> int \<Rightarrow> string option \<Rightarrow> copy_worker" where
  "job paths n policy =
     \<lparr>pathlist = paths, destdir = ''/out'', flattencount = n, overwrite = policy\<rparr>"

text \<open>The same disk with \<^verbatim>\<open>x.txt\<close> already at the destination, smaller and older.\<close>

definition disk1 :: disk where
  "disk1 = [(''/out/x.txt'', regular 50 3), (''/a/x.txt'', regular 100 5),
            (''/a'', directory), (''/out'', directory)]"



text \<open>Two files to copy, and the same two with both already at the destination.\<close>

definition disk2 :: disk where
  "disk2 = [(''/a/x.txt'', regular 100 5), (''/a/y.txt'', regular 50 5),
            (''/a'', directory), (''/out'', directory)]"

definition disk3 :: disk where
  "disk3 = [(''/out/x.txt'', regular 100 5), (''/out/y.txt'', regular 50 5),
            (''/a/x.txt'', regular 100 5), (''/a/y.txt'', regular 50 5),
            (''/a'', directory), (''/out'', directory)]"

section \<open>Reading the signals of a job\<close>

text \<open>The terminal signals are \<^verbatim>\<open>spaceProblem\<close> and \<^verbatim>\<open>copyComplete\<close>; \<open>progress_counts\<close>
  is the sequence of second arguments of \<^verbatim>\<open>copyProgress\<close>; \<open>unit_steps\<close> says that each
  value of a sequence is the one before it or exceeds it by 1. \<open>stays_cancelled\<close> says
  of the reads of \<^verbatim>\<open>must_run\<close> that the attribute, once found false, is found false at
  the next read: nobody restarts the job while it is being cancelled.\<close>

fun terminal :: "event \<Rightarrow> bool" where
  "terminal (CopyProgress p c t) = False"
| "terminal (SpaceProblem a b) = True"
| "terminal (CopyComplete n b) = True"




section \<open>One file: \<^verbatim>\<open>copy_file_to_dest\<close>\<close>

lemma get_file_size_ret:
  "get_file_size h w self p True = (self, map_option st_size (os_stat h w p))"
  by (simp add: get_file_size_def split: option.splits)

lemma copy_file_to_dest_by_flag:
  "copy_file_to_dest h w self filepath destination policy =
     (case copy_file_flag policy (path_exists h w destination)
             (map_option st_size (os_stat h w filepath)) (get_file_age h w filepath)
             (map_option st_size (os_stat h w destination))
             (get_file_age h w destination) of
        None \<Rightarrow> \<lparr>world_after = w, effects_of = [], outcome = Inl UnboundLocalError\<rparr>
      | Some False \<Rightarrow> \<lparr>world_after = w, effects_of = [], outcome = Inr self\<rparr>
      | Some True \<Rightarrow>
          copy_flagged h w self (map_option st_size (os_stat h w filepath)) filepath
            destination)"
  by (simp add: copy_file_to_dest_def Let_def get_file_size_ret copy_file_flag_def
      path_exists_def get_file_age_def)

lemma copy_flagged_attempts:
  "Copy2 filepath destination
     \<in> set (effects_of (copy_flagged h w self n filepath destination))"
  by (simp add: copy_flagged_def Let_def split: prod.splits bool.splits)

text \<open>Under \<^verbatim>\<open>'larger'\<close> and \<^verbatim>\<open>'newer'\<close> a destination that is kept is not skipped:
  \<^verbatim>\<open>copy_file_flag\<close> was never assigned, and reading it raises.\<close>

lemma copy_file_to_dest_unbound:
  "outcome (copy_file_to_dest h w self filepath destination policy) = Inl UnboundLocalError
   \<longleftrightarrow> os_stat h w destination \<noteq> None
       \<and> (policy = Some ''larger''
            \<and> \<not> py2_gt (map_option st_size (os_stat h w filepath))
                   (map_option st_size (os_stat h w destination))
          \<or> policy = Some ''newer''
            \<and> \<not> get_file_age h w destination < get_file_age h w filepath)"
  by (auto simp: copy_file_to_dest_by_flag copy_file_flag_def path_exists_def
      copy_flagged_def Let_def split: prod.splits bool.splits option.splits)

text \<open>When \<^verbatim>\<open>shutil.copy2\<close> is called. With the destination in place: never without a
  policy, always under \<^verbatim>\<open>'either'\<close>, under \<^verbatim>\<open>'larger'\<close> exactly when the source has a
  size and it is greater than the destination's, under \<^verbatim>\<open>'newer'\<close> exactly when the
  source's modification time (0 when unknown) is later than the destination's. With no
  destination in place: whatever the policy. This says which files are passed to
  \<^verbatim>\<open>shutil.copy2\<close>, not how the call ends when they are not: see
  \<open>copy_file_to_dest_unbound\<close>.\<close>

lemma copy2_called_by_policy:
  "(os_stat h w destination = Some d \<longrightarrow>
      (policy = None \<longrightarrow>
         copy_file_to_dest h w self filepath destination policy =
           \<lparr>world_after = w, effects_of = [], outcome = Inr self\<rparr>)
    \<and> (policy = Some ''either'' \<longrightarrow>
         Copy2 filepath destination
           \<in> set (effects_of (copy_file_to_dest h w self filepath destination policy)))
    \<and> (policy = Some ''larger'' \<longrightarrow>
         (Copy2 filepath destination
            \<in> set (effects_of (copy_file_to_dest h w self filepath destination policy))
          \<longleftrightarrow> (\<exists>s. os_stat h w filepath = Some s \<and> st_size d < st_size s)))
    \<and> (policy = Some ''newer'' \<longrightarrow>
         (Copy2 filepath destination
            \<in> set (effects_of (copy_file_to_dest h w self filepath destination policy))
          \<longleftrightarrow> st_mtime d < get_file_age h w filepath)))
   \<and> (os_stat h w destination = None \<longrightarrow>
        Copy2 filepath destination
          \<in> set (effects_of (copy_file_to_dest h w self filepath destination policy)))"
proof -
  have absent: "os_stat h w destination = None \<Longrightarrow>
      Copy2 filepath destination
        \<in> set (effects_of (copy_file_to_dest h w self filepath destination policy))"
    by (simp add: copy_file_to_dest_by_flag copy_file_flag_def path_exists_def
        copy_flagged_attempts)
  have none: "os_stat h w destination = Some d \<Longrightarrow>
      copy_file_to_dest h w self filepath destination None =
        \<lparr>world_after = w, effects_of = [], outcome = Inr self\<rparr>"
    by (simp add: copy_file_to_dest_by_flag copy_file_flag_def path_exists_def)
  have either: "os_stat h w destination = Some d \<Longrightarrow>
      Copy2 filepath destination
        \<in> set (effects_of
                 (copy_file_to_dest h w self filepath destination (Some ''either'')))"
    by (simp add: copy_file_to_dest_by_flag copy_file_flag_def path_exists_def
        copy_flagged_attempts)
  have larger: "os_stat h w destination = Some d \<Longrightarrow>
      (Copy2 filepath destination
         \<in> set (effects_of
                  (copy_file_to_dest h w self filepath destination (Some ''larger'')))
       \<longleftrightarrow> (\<exists>s. os_stat h w filepath = Some s \<and> st_size d < st_size s))"
    by (cases "os_stat h w filepath")
      (simp_all add: copy_file_to_dest_by_flag copy_file_flag_def path_exists_def
        copy_flagged_attempts)
  have newer: "os_stat h w destination = Some d \<Longrightarrow>
      (Copy2 filepath destination
         \<in> set (effects_of
                  (copy_file_to_dest h w self filepath destination (Some ''newer'')))
       \<longleftrightarrow> st_mtime d < get_file_age h w filepath)"
    by (simp add: copy_file_to_dest_by_flag copy_file_flag_def path_exists_def
        copy_flagged_attempts get_file_age_def)
  from absent none either larger newer show ?thesis by blast
qed

text \<open>
  \<^bold>\<open>C1.\<close> The file \<^verbatim>\<open>x.txt\<close> is at the destination with the size and the time of the
  source, so \<^verbatim>\<open>'larger'\<close> and \<^verbatim>\<open>'newer'\<close> are to keep it. The policy does not decide
  on a skip: \<^verbatim>\<open>copy_file_flag\<close> was never assigned, line 160 reads it, and the call
  raises UnboundLocalError. Nothing is copied, and the job does not go on to the next
  file: it ends in that exception after its first signal, where the same job without a
  policy skips both files and completes.
\<close>

theorem kept_destination_raises_UnboundLocalError:
  "copy_file_to_dest (disk_host 1000) disk3 FileOperations ''/a/x.txt'' ''/out/x.txt''
       (Some ''larger'') =
     \<lparr>world_after = disk3, effects_of = [], outcome = Inl UnboundLocalError\<rparr>
   \<and> copy_file_to_dest (disk_host 1000) disk3 FileOperations ''/a/x.txt'' ''/out/x.txt''
       (Some ''newer'') =
     \<lparr>world_after = disk3, effects_of = [], outcome = Inl UnboundLocalError\<rparr>
   \<and> run (disk_host 1000) disk3 (\<lambda>k. True) (job [''/a''] 1 (Some ''larger'')) =
     \<lparr>events = [CopyProgress 0 0 2], effects = [], world = disk3, copied = FileOperations,
      ending = Raised UnboundLocalError\<rparr>
   \<and> run (disk_host 1000) disk3 (\<lambda>k. True) (job [''/a''] 1 None) =
     \<lparr>events = [CopyProgress 0 0 2, CopyProgress 0 0 2, CopyProgress 0 0 2,
                CopyComplete 2 150],
      effects = [], world = disk3, copied = FileOperations, ending = Completed\<rparr>"
  by code_simp



lemma copy_flagged_effects_cases:
  "e \<in> set (effects_of (copy_flagged h w self n filepath destination)) \<Longrightarrow>
     e = Copy2 filepath destination \<or> e = PrintCopyError filepath destination
     \<or> e = Makedirs (fst (os_path_split destination))
     \<or> e = PrintUnableToCreate (fst (os_path_split destination))"
  by (auto simp: copy_flagged_def Let_def split: prod.splits bool.splits if_splits)

lemma copy_file_to_dest_Copy2:
  "Copy2 f d \<in> set (effects_of (copy_file_to_dest h w self filepath destination policy))
   \<Longrightarrow> f = filepath \<and> d = destination"
  by (auto simp: copy_file_to_dest_by_flag split: option.splits bool.splits
      dest: copy_flagged_effects_cases)



text \<open>The two printed lines are in the trace exactly when the call they report was made
  and raised.\<close>

lemma unable_printed_iff:
  "PrintUnableToCreate parent
     \<in> set (effects_of (copy_flagged h w self n filepath destination))
   \<longleftrightarrow> parent = fst (os_path_split destination)
       \<and> \<not> path_exists h w parent \<and> \<not> fst (os_makedirs h w parent)"
  by (auto simp: copy_flagged_def Let_def split: prod.splits bool.splits if_splits)

lemma copy_error_printed_iff:
  "PrintCopyError filepath destination
     \<in> set (effects_of (copy_flagged h w self n filepath destination))
   \<longleftrightarrow> (let parent = fst (os_path_split destination);
            w1 = (if path_exists h w parent then w else snd (os_makedirs h w parent))
        in \<not> fst (shutil_copy2 h w1 filepath destination))"
  by (auto simp: copy_flagged_def Let_def split: prod.splits bool.splits if_splits)




section \<open>Destination paths: \<^verbatim>\<open>get_dest_filepath\<close>\<close>

lemma split_path_root: "split_path ''/'' = []"
  by code_simp

text \<open>The one way \<^verbatim>\<open>get_dest_filepath\<close> fails: a positive count and a path that splits
  into no component at all (\<^verbatim>\<open>/\<close>, the empty path, a single character).\<close>

lemma get_dest_filepath_raises_iff:
  "get_dest_filepath h filepath destpath n = Inl e \<longleftrightarrow>
     e = IndexError \<and> n > 0 \<and> split_path filepath = []"
  by (auto simp: get_dest_filepath_def Let_def split: list.splits)

text \<open>
  \<^bold>\<open>C5.\<close> The destination of the root directory \<^verbatim>\<open>/\<close> with one directory to trim: the
  path splits into no component, the fallback reads \<^verbatim>\<open>fp[-1]\<close> of the empty list, and
  the call raises IndexError instead of producing a path.
\<close>

theorem get_dest_filepath_root_IndexError:
  "get_dest_filepath h ''/'' ''/out'' 1 = Inl IndexError"
  by (simp add: get_dest_filepath_def split_path_root)

section \<open>The scan\<close>

lemma record_file_count:
  "filecount (record_file h w p s) = filecount s + 1
   \<and> filelist (record_file h w p s) = filelist s @ [p]"
  by (simp add: record_file_def get_file_size_def split: option.splits)

lemma fold_record_file_count:
  "filecount (fold (\<lambda>file. record_file h w (g file)) fs s) = filecount s + int (length fs)
   \<and> filelist (fold (\<lambda>file. record_file h w (g file)) fs s) = filelist s @ map g fs"
  by (induction fs arbitrary: s) (simp_all add: record_file_count)

lemma walk_count:
  "filecount (fold (\<lambda>(r, d, f) s. fold (\<lambda>file. record_file h w (g r file)) f s) ts s)
     - int (length (filelist
         (fold (\<lambda>(r, d, f) s. fold (\<lambda>file. record_file h w (g r file)) f s) ts s)))
   = filecount s - int (length (filelist s))"
  by (induction ts arbitrary: s) (auto simp: fold_record_file_count)

lemma get_file_list_for_dir_count:
  "filecount (get_file_list_for_dir h w s p)
     - int (length (filelist (get_file_list_for_dir h w s p)))
   = filecount s - int (length (filelist s))"
  using walk_count
    [of h w "\<lambda>r file. os_path_join (os_path_abspath h r) [file]" "os_walk h w p" s]
  by (simp add: get_file_list_for_dir_def record_file_count)

lemma fold_keeps_count:
  assumes "\<And>p acc. filecount (step p acc) - int (length (filelist (step p acc)))
                     = filecount acc - int (length (filelist acc))"
  shows "filecount (fold step ps acc) - int (length (filelist (fold step ps acc)))
         = filecount acc - int (length (filelist acc))"
  by (induction ps arbitrary: acc) (simp_all add: assms)

text \<open>What the scan does keep: its count is the length of its list, duplicates
  included.\<close>

lemma scan_sources_count:
  "filecount (scan_sources h w ps) = int (length (filelist (scan_sources h w ps)))"
proof -
  have one: "filecount (get_file_list_for_dir h w FileOperations p)
        = int (length (filelist (get_file_list_for_dir h w FileOperations p)))" for p
    using get_file_list_for_dir_count [of h w FileOperations p]
    by (simp add: FileOperations_def)
  show ?thesis
    unfolding scan_sources_def
    using fold_keeps_count
      [where acc = "\<lparr>filecount = 0, filelist = [], filesize = 0\<rparr>" and ps = ps
         and step = "\<lambda>filepath acc.
            let fileop = get_file_list_for_dir h w FileOperations filepath
            in \<lparr>filecount = filecount acc + filecount fileop,
                filelist = filelist acc @ filelist fileop,
                filesize = filesize acc + filesize fileop\<rparr>"]
    by (simp add: Let_def one)
qed

text \<open>
  \<^bold>\<open>C3.\<close> The directory \<^verbatim>\<open>/a\<close> and its file \<^verbatim>\<open>/a/x.txt\<close> (100 bytes) selected together:
  the scan counts the file twice, 2 files and 200 bytes, although the list without
  duplicates, which is what the copy loop runs over, has one file of 100 bytes.
\<close>

theorem scan_counts_duplicates:
  "scan_sources (disk_host 1000) disk0 [''/a'', ''/a/x.txt''] =
     \<lparr>filecount = 2, filelist = [''/a/x.txt'', ''/a/x.txt''], filesize = 200\<rparr>
   \<and> sorted_list_of_set (set [''/a/x.txt'', ''/a/x.txt'']) = [''/a/x.txt'']
   \<and> map (map_option st_size \<circ> os_stat (disk_host 1000) disk0) [''/a/x.txt''] = [Some 100]"
  by code_simp

section \<open>The job: \<^verbatim>\<open>CopyWorker.run\<close>\<close>

lemma copy_loop_no_terminal:
  "filter terminal (events (copy_loop h must_run self scanned files k w filecopy)) = []"
  by (induction files arbitrary: k w filecopy)
    (auto simp: Let_def split: sum.splits)

lemma copy_loop_ending:
  "ending (copy_loop h must_run self scanned files k w filecopy) \<noteq> InsufficientSpace"
  by (induction files arbitrary: k w filecopy)
    (auto simp: Let_def split: sum.splits)

lemma copy_loop_cancelled_last:
  "ending (copy_loop h must_run self scanned files k w filecopy) = Cancelled \<Longrightarrow>
     effects (copy_loop h must_run self scanned files k w filecopy) \<noteq> []
     \<and> last (effects (copy_loop h must_run self scanned files k w filecopy)) = PrintCopyCancelled"
  by (induction files arbitrary: k w filecopy)
    (auto simp: Let_def split: sum.splits if_splits)

lemma copy_loop_cancel_at:
  "\<not> must_run (k + 2 * i) \<Longrightarrow> i < length files \<Longrightarrow>
     ending (copy_loop h must_run self scanned files k w filecopy) \<noteq> Completed
     \<and> (\<forall>f d. Copy2 f d \<in> set (effects (copy_loop h must_run self scanned files k w filecopy))
          \<longrightarrow> f \<in> set (take i files))"
proof (induction files arbitrary: i k w filecopy)
  case Nil
  then show ?case by simp
next
  case (Cons x xs)
  show ?case
  proof (cases i)
    case 0
    with Cons.prems show ?thesis by simp
  next
    case (Suc j)
    with Cons.prems have later: "\<not> must_run (k + 2 + 2 * j)" and short: "j < length xs"
      by (simp_all add: add.commute add.left_commute)
    note IH = Cons.IH [OF later short]
    show ?thesis
      using IH Suc
      by (auto simp: Let_def split: sum.splits dest: copy_file_to_dest_Copy2)
  qed
qed







text \<open>
  \<^bold>\<open>C4.\<close> When the free-space query returns, the comparison with the scan's byte total
  is strict. Below the free space the job enters the copy loop: its first signal is
  the initial \<^verbatim>\<open>copyProgress\<close>, it emits no \<^verbatim>\<open>spaceProblem\<close>, and what it does to
  the file system is what the loop does. Otherwise, equality included, it emits
  \<^verbatim>\<open>spaceProblem\<close> with the byte total and the free space, does nothing and returns.
\<close>

theorem capacity_check_is_strict:
  "get_free_space h w (destdir self) = Inr available \<longrightarrow>
     (let scanned = scan_sources h w (pathlist self);
          r = run h w must_run self
      in (filesize scanned < available \<longrightarrow>
            events r \<noteq> [] \<and> hd (events r) = CopyProgress 0 0 (filecount scanned)
            \<and> (\<forall>a b. SpaceProblem a b \<notin> set (events r))
            \<and> ending r \<noteq> InsufficientSpace
            \<and> effects r =
                effects (copy_loop h must_run self scanned
                           (sorted_list_of_set (set (filelist scanned))) 0 w FileOperations))
       \<and> (\<not> filesize scanned < available \<longrightarrow>
            r = \<lparr>events = [SpaceProblem (filesize scanned) available], effects = [],
                 world = w, copied = FileOperations, ending = InsufficientSpace\<rparr>))"
proof -
  have quiet: "SpaceProblem a b \<notin> set (events (copy_loop h must_run self scanned files k w' fc))"
    for a b scanned files k w' fc
  proof
    assume "SpaceProblem a b \<in> set (events (copy_loop h must_run self scanned files k w' fc))"
    then have "SpaceProblem a b
        \<in> set (filter terminal (events (copy_loop h must_run self scanned files k w' fc)))"
      by simp
    then show False by (simp add: copy_loop_no_terminal)
  qed
  show ?thesis
    by (simp add: run_def Let_def copy_loop_ending quiet)
qed

theorem capacity_check_is_strict_witness:
  "get_free_space (disk_host 100) disk0 (destdir (job [''/a''] 0 None)) = Inr 100
   \<and> filesize (scan_sources (disk_host 100) disk0 (pathlist (job [''/a''] 0 None))) = 100
   \<and> run (disk_host 100) disk0 (\<lambda>k. True) (job [''/a''] 0 None) =
       \<lparr>events = [SpaceProblem 100 100], effects = [], world = disk0,
        copied = FileOperations, ending = InsufficientSpace\<rparr>
   \<and> get_free_space (disk_host 101) disk0 (destdir (job [''/a''] 0 None)) = Inr 101
   \<and> filesize (scan_sources (disk_host 101) disk0 (pathlist (job [''/a''] 0 None))) = 100
   \<and> hd (events (run (disk_host 101) disk0 (\<lambda>k. True) (job [''/a''] 0 None))) =
       CopyProgress 0 0 1
   \<and> ending (run (disk_host 101) disk0 (\<lambda>k. True) (job [''/a''] 0 None)) \<noteq> InsufficientSpace
   \<and> effects (run (disk_host 101) disk0 (\<lambda>k. True) (job [''/a''] 0 None)) =
       [Makedirs ''/out/a'', Copy2 ''/a/x.txt'' ''/out/a/x.txt'']"
proof -
  have free100: "get_free_space (disk_host 100) disk0 (destdir (job [''/a''] 0 None)) = Inr 100"
    by code_simp
  have free101: "get_free_space (disk_host 101) disk0 (destdir (job [''/a''] 0 None)) = Inr 101"
    by code_simp
  have scan100: "scan_sources (disk_host 100) disk0 (pathlist (job [''/a''] 0 None)) =
      \<lparr>filecount = 1, filelist = [''/a/x.txt''], filesize = 100\<rparr>"
    by code_simp
  have scan101: "scan_sources (disk_host 101) disk0 (pathlist (job [''/a''] 0 None)) =
      \<lparr>filecount = 1, filelist = [''/a/x.txt''], filesize = 100\<rparr>"
    by code_simp
  have full: "run (disk_host 100) disk0 (\<lambda>k. True) (job [''/a''] 0 None) =
       \<lparr>events = [SpaceProblem 100 100], effects = [], world = disk0,
        copied = FileOperations, ending = InsufficientSpace\<rparr>"
    using capacity_check_is_strict
      [where h = "disk_host 100" and w = disk0 and self = "job [''/a''] 0 None"
         and available = 100 and must_run = "\<lambda>k. True"] free100
    by (simp add: scan100 Let_def)
  have room: "hd (events (run (disk_host 101) disk0 (\<lambda>k. True) (job [''/a''] 0 None))) =
       CopyProgress 0 0 1
     \<and> ending (run (disk_host 101) disk0 (\<lambda>k. True) (job [''/a''] 0 None)) \<noteq> InsufficientSpace"
    using capacity_check_is_strict
      [where h = "disk_host 101" and w = disk0 and self = "job [''/a''] 0 None"
         and available = 101 and must_run = "\<lambda>k. True"] free101
    by (simp add: scan101 Let_def)
  have files: "sorted_list_of_set (set [''/a/x.txt'']) = [''/a/x.txt'']"
    by code_simp
  have loop: "effects (copy_loop (disk_host 101) (\<lambda>k. True) (job [''/a''] 0 None)
        \<lparr>filecount = 1, filelist = [''/a/x.txt''], filesize = 100\<rparr> [''/a/x.txt'']
        0 disk0 FileOperations) =
      [Makedirs ''/out/a'', Copy2 ''/a/x.txt'' ''/out/a/x.txt'']"
    by code_simp
  have copies: "effects (run (disk_host 101) disk0 (\<lambda>k. True) (job [''/a''] 0 None)) =
       [Makedirs ''/out/a'', Copy2 ''/a/x.txt'' ''/out/a/x.txt'']"
    using capacity_check_is_strict
      [where h = "disk_host 101" and w = disk0 and self = "job [''/a''] 0 None"
         and available = 101 and must_run = "\<lambda>k. True"] free101
    by (simp add: scan101 Let_def files loop del: copy_loop.simps)
  show ?thesis
    using free100 free101 full room copies by (simp add: scan100 scan101)
qed

text \<open>
  \<^bold>\<open>C2.\<close> A job of one empty file, with room at the destination: the scan's byte total
  is 0, the file is copied, and the percentage then divides by that total. Nothing
  guards the division: the job ends in ZeroDivisionError after its first signal, with
  no 100 and no completion. Only a job with no file at all, whose loop body never runs,
  gets past a total of 0: it completes with zero counts, and emits no 100 either.
\<close>

theorem run_zero_bytes_ZeroDivisionError:
  "run (disk_host 1000) [(''/e'', regular 0 1), (''/out'', directory)] (\<lambda>k. True)
       (job [''/e''] 0 None) =
     \<lparr>events = [CopyProgress 0 0 1],
      effects = [Copy2 ''/e'' ''/out/e''],
      world = [(''/out/e'', regular 0 1), (''/e'', regular 0 1), (''/out'', directory)],
      copied = \<lparr>filecount = 1, filelist = [], filesize = 0\<rparr>,
      ending = Raised ZeroDivisionError\<rparr>
   \<and> run (disk_host 1000) disk0 (\<lambda>k. True) (job [] 0 None) =
     \<lparr>events = [CopyProgress 0 0 0, CopyComplete 0 0], effects = [], world = disk0,
      copied = FileOperations, ending = Completed\<rparr>"
  by code_simp

text \<open>
  \<^bold>\<open>C9.\<close> A destination whose file system cannot be statted. Off Windows
  \<^verbatim>\<open>os.statvfs\<close> raises and nothing catches it: the job ends in OSError before it
  scans, with no signal. On Windows the failed call leaves 0 free bytes, and the same
  job ends in \<^verbatim>\<open>spaceProblem\<close>.
\<close>

theorem run_statvfs_fails_OSError:
  "run (disk_host 1000) disk0 (\<lambda>k. True)
       \<lparr>pathlist = [''/a''], destdir = ''/gone'', flattencount = 0, overwrite = None\<rparr> =
     \<lparr>events = [], effects = [], world = disk0, copied = FileOperations,
      ending = Raised OSError\<rparr>
   \<and> run ((disk_host 1000)\<lparr>os_version := Windows\<rparr>) disk0 (\<lambda>k. True)
       \<lparr>pathlist = [''/a''], destdir = ''/gone'', flattencount = 0, overwrite = None\<rparr> =
     \<lparr>events = [SpaceProblem 100 0], effects = [], world = disk0, copied = FileOperations,
      ending = InsufficientSpace\<rparr>"
  by code_simp

text \<open>A job cancelled before its first file: one progress signal, then nothing. No
  terminal signal ends the stream.\<close>

theorem cancelled_job_emits_no_terminal_signal:
  "events (run (disk_host 1000) disk0 (\<lambda>k. False) (job [''/a''] 0 None)) =
     [CopyProgress 0 0 1]
   \<and> filter terminal (events (run (disk_host 1000) disk0 (\<lambda>k. False) (job [''/a''] 0 None))) = []
   \<and> ending (run (disk_host 1000) disk0 (\<lambda>k. False) (job [''/a''] 0 None)) = Cancelled"
  by code_simp

text \<open>
  \<^bold>\<open>C6.\<close> A job that completes emits \<^verbatim>\<open>copyComplete\<close> once, as its last signal; a job
  that fails the capacity check emits \<^verbatim>\<open>spaceProblem\<close> as its only signal and does
  nothing; a cancelled job emits no terminal signal: the last thing it does is print
  that the copy was cancelled. When \<^verbatim>\<open>must_run\<close> is already false at the first read
  (the capacity check passed, the file list is not empty), no file is copied and the
  job ends cancelled. The attribute is read before each file: when the read before
  file \<open>i\<close> finds it false, the job does not complete and only files before \<open>i\<close> were
  ever passed to \<^verbatim>\<open>shutil.copy2\<close>.
\<close>

theorem run_terminal_signal_and_cancel:
  "let r = run h w must_run self;
       scanned = scan_sources h w (pathlist self);
       files = sorted_list_of_set (set (filelist scanned))
   in (ending r = Completed \<longrightarrow>
         filter terminal (events r) = [CopyComplete (filecount scanned) (filesize scanned)]
         \<and> last (events r) = CopyComplete (filecount scanned) (filesize scanned))
    \<and> (ending r = InsufficientSpace \<longrightarrow>
         (\<exists>a. events r = [SpaceProblem (filesize scanned) a]) \<and> effects r = [])
    \<and> (ending r = Cancelled \<longrightarrow>
         filter terminal (events r) = [] \<and> effects r \<noteq> []
         \<and> last (effects r) = PrintCopyCancelled)
    \<and> (get_free_space h w (destdir self) = Inr available \<and> filesize scanned < available
        \<and> files \<noteq> [] \<and> \<not> must_run 0 \<longrightarrow>
         r = \<lparr>events = [CopyProgress 0 0 (filecount scanned)], effects = [PrintCopyCancelled],
              world = w, copied = FileOperations, ending = Cancelled\<rparr>)
    \<and> (i < length files \<and> \<not> must_run (2 * i) \<longrightarrow>
         ending r \<noteq> Completed
         \<and> (\<forall>f d. Copy2 f d \<in> set (effects r) \<longrightarrow> f \<in> set (take i files)))"
proof -
  define scanned where "scanned = scan_sources h w (pathlist self)"
  define files where "files = sorted_list_of_set (set (filelist scanned))"
  define loop where "loop = copy_loop h must_run self scanned files 0 w FileOperations"
  define r where "r = run h w must_run self"
  have quiet: "filter terminal (events loop) = []"
    by (simp add: loop_def copy_loop_no_terminal)
  have shape: "(\<exists>e. r = \<lparr>events = [], effects = [], world = w, copied = FileOperations,
                          ending = Raised e\<rparr>)
      \<or> (\<exists>a. r = \<lparr>events = [SpaceProblem (filesize scanned) a], effects = [], world = w,
                    copied = FileOperations, ending = InsufficientSpace\<rparr>)
      \<or> r = loop\<lparr>events := CopyProgress 0 0 (filecount scanned) # events loop @
                    (if ending loop = Completed
                     then [CopyComplete (filecount scanned) (filesize scanned)] else [])\<rparr>"
    by (simp add: r_def run_def Let_def scanned_def files_def loop_def split: sum.splits)
  have not_space: "ending loop \<noteq> InsufficientSpace"
    by (simp add: loop_def copy_loop_ending)
  have fin: "ending r = Completed \<Longrightarrow>
      filter terminal (events r) = [CopyComplete (filecount scanned) (filesize scanned)]
      \<and> last (events r) = CopyComplete (filecount scanned) (filesize scanned)"
    using shape quiet by auto
  have space: "ending r = InsufficientSpace \<Longrightarrow>
      (\<exists>a. events r = [SpaceProblem (filesize scanned) a]) \<and> effects r = []"
    using shape not_space by auto
  have cancelled: "ending r = Cancelled \<Longrightarrow>
      filter terminal (events r) = [] \<and> effects r \<noteq> [] \<and> last (effects r) = PrintCopyCancelled"
    using shape quiet copy_loop_cancelled_last
      [of h must_run self scanned files 0 w FileOperations]
    by (auto simp: loop_def)
  have first: "get_free_space h w (destdir self) = Inr available \<Longrightarrow>
      filesize scanned < available \<Longrightarrow> files \<noteq> [] \<Longrightarrow> \<not> must_run 0 \<Longrightarrow>
      r = \<lparr>events = [CopyProgress 0 0 (filecount scanned)], effects = [PrintCopyCancelled],
           world = w, copied = FileOperations, ending = Cancelled\<rparr>"
    by (cases files) (simp_all add: r_def run_def Let_def scanned_def [symmetric]
        files_def [symmetric])
  have at: "i < length files \<Longrightarrow> \<not> must_run (2 * i) \<Longrightarrow>
      ending r \<noteq> Completed
      \<and> (\<forall>f d. Copy2 f d \<in> set (effects r) \<longrightarrow> f \<in> set (take i files))"
  proof -
    assume "i < length files" and "\<not> must_run (2 * i)"
    then have "\<not> must_run (0 + 2 * i)" and "i < length files"
      by simp_all
    from copy_loop_cancel_at
      [where must_run = must_run and k = 0 and i = i and files = files and h = h
         and self = self and scanned = scanned and w = w and filecopy = FileOperations,
       OF this]
    have stop: "ending loop \<noteq> Completed"
      and none: "\<And>f d. Copy2 f d \<in> set (effects loop) \<Longrightarrow> f \<in> set (take i files)"
      unfolding loop_def by blast+
    from shape have "ending r \<noteq> Completed"
      using stop by auto
    moreover from shape have "effects r = [] \<or> effects r = effects loop"
      by auto
    ultimately show ?thesis
      using none by auto
  qed
  from fin space cancelled first at show ?thesis
    unfolding Let_def r_def [symmetric] scanned_def [symmetric] files_def [symmetric]
    by blast
qed

theorem run_terminal_signal_and_cancel_witness:
  "ending (run (disk_host 1000) disk0 (\<lambda>k. True) (job [''/a''] 0 None)) = Completed
   \<and> filter terminal (events (run (disk_host 1000) disk0 (\<lambda>k. True) (job [''/a''] 0 None))) =
       [CopyComplete 1 100]
   \<and> last (events (run (disk_host 1000) disk0 (\<lambda>k. True) (job [''/a''] 0 None))) =
       CopyComplete 1 100
   \<and> ending (run (disk_host 100) disk0 (\<lambda>k. True) (job [''/a''] 0 None)) = InsufficientSpace
   \<and> effects (run (disk_host 100) disk0 (\<lambda>k. True) (job [''/a''] 0 None)) = []
   \<and> get_free_space (disk_host 1000) disk0 (destdir (job [''/a''] 0 None)) = Inr 1000
   \<and> \<not> (\<lambda>k. False) (0 :: nat)
   \<and> run (disk_host 1000) disk0 (\<lambda>k. False) (job [''/a''] 0 None) =
       \<lparr>events = [CopyProgress 0 0 1], effects = [PrintCopyCancelled], world = disk0,
        copied = FileOperations, ending = Cancelled\<rparr>
   \<and> ending (run (disk_host 1000) disk2 (\<lambda>k. k < 2) (job [''/a''] 0 None)) = Cancelled
   \<and> filter terminal (events (run (disk_host 1000) disk2 (\<lambda>k. k < 2) (job [''/a''] 0 None)))
       = []
   \<and> last (effects (run (disk_host 1000) disk2 (\<lambda>k. k < 2) (job [''/a''] 0 None))) =
       PrintCopyCancelled
   \<and> \<not> (\<lambda>k. k < 2) (2 * (1 :: nat))
   \<and> Copy2 ''/a/x.txt'' ''/out/a/x.txt''
       \<in> set (effects (run (disk_host 1000) disk2 (\<lambda>k. k < 2) (job [''/a''] 0 None)))
   \<and> ''/a/x.txt'' \<in> set (take 1 [''/a/x.txt'', ''/a/y.txt''])
   \<and> ending (run (disk_host 1000) disk2 (\<lambda>k. k < 2) (job [''/a''] 0 None)) \<noteq> Completed"
proof -
  let ?j = "job [''/a''] 0 None"
  have scan0: "scan_sources (disk_host 1000) disk0 (pathlist ?j) =
      \<lparr>filecount = 1, filelist = [''/a/x.txt''], filesize = 100\<rparr>"
    by code_simp
  have scan0': "scan_sources (disk_host 100) disk0 (pathlist ?j) =
      \<lparr>filecount = 1, filelist = [''/a/x.txt''], filesize = 100\<rparr>"
    by code_simp
  have scan2: "scan_sources (disk_host 1000) disk2 (pathlist ?j) =
      \<lparr>filecount = 2, filelist = [''/a/x.txt'', ''/a/y.txt''], filesize = 150\<rparr>"
    by code_simp
  have files0: "sorted_list_of_set (set [''/a/x.txt'']) = [''/a/x.txt'']"
    by code_simp
  have files2: "sorted_list_of_set (set [''/a/x.txt'', ''/a/y.txt'']) =
      [''/a/x.txt'', ''/a/y.txt'']"
    by code_simp
  have free: "get_free_space (disk_host 1000) disk0 (destdir ?j) = Inr 1000"
    by code_simp
  have e1: "ending (run (disk_host 1000) disk0 (\<lambda>k. True) ?j) = Completed"
    by code_simp
  have e2: "ending (run (disk_host 100) disk0 (\<lambda>k. True) ?j) = InsufficientSpace"
    by code_simp
  have e3: "ending (run (disk_host 1000) disk2 (\<lambda>k. k < 2) ?j) = Cancelled"
    by code_simp
  have c3: "Copy2 ''/a/x.txt'' ''/out/a/x.txt''
       \<in> set (effects (run (disk_host 1000) disk2 (\<lambda>k. k < 2) ?j))"
    by code_simp
  note completes = run_terminal_signal_and_cancel
    [where h = "disk_host 1000" and w = disk0 and must_run = "\<lambda>k. True" and self = ?j
       and available = 1000 and i = 0]
  note no_room = run_terminal_signal_and_cancel
    [where h = "disk_host 100" and w = disk0 and must_run = "\<lambda>k. True" and self = ?j
       and available = 100 and i = 0]
  note at_once = run_terminal_signal_and_cancel
    [where h = "disk_host 1000" and w = disk0 and must_run = "\<lambda>k. False" and self = ?j
       and available = 1000 and i = 0]
  note midway = run_terminal_signal_and_cancel
    [where h = "disk_host 1000" and w = disk2 and must_run = "\<lambda>k. k < 2" and self = ?j
       and available = 1000 and i = 1]
  have w1: "filter terminal (events (run (disk_host 1000) disk0 (\<lambda>k. True) ?j)) =
       [CopyComplete 1 100]
     \<and> last (events (run (disk_host 1000) disk0 (\<lambda>k. True) ?j)) = CopyComplete 1 100"
    using completes e1 by (simp add: Let_def scan0)
  have w2: "effects (run (disk_host 100) disk0 (\<lambda>k. True) ?j) = []"
    using no_room e2 by (simp add: Let_def scan0')
  have w3: "run (disk_host 1000) disk0 (\<lambda>k. False) ?j =
       \<lparr>events = [CopyProgress 0 0 1], effects = [PrintCopyCancelled], world = disk0,
        copied = FileOperations, ending = Cancelled\<rparr>"
    using at_once free by (simp add: Let_def scan0 files0)
  have w4: "filter terminal (events (run (disk_host 1000) disk2 (\<lambda>k. k < 2) ?j)) = []
     \<and> last (effects (run (disk_host 1000) disk2 (\<lambda>k. k < 2) ?j)) = PrintCopyCancelled"
    using midway e3 by (simp add: Let_def scan2 files2)
  have w5: "''/a/x.txt'' \<in> set (take 1 [''/a/x.txt'', ''/a/y.txt''])
     \<and> ending (run (disk_host 1000) disk2 (\<lambda>k. k < 2) ?j) \<noteq> Completed"
    using midway c3 by (simp add: Let_def scan2 files2)
  show ?thesis
    using e1 e2 e3 c3 free w1 w2 w3 w4 w5 by simp
qed




end
